theory Spec2Isabelle
  imports Complex_Main "HOL-Library.Sublist"
begin

section \<open>The camera display of ctapipe/visualization/mpl.py\<close>

text \<open>
  The module is one class, \<^verbatim>\<open>CameraDisplay\<close>, which turns a camera geometry into
  matplotlib patches and updates them. The embedding keeps what the class itself
  computes and records what it asks of matplotlib:
  \<^item> numpy's float64 numbers are the reals, so \<^verbatim>\<open>numpy.sqrt\<close> is \<open>sqrt\<close> on
    arguments that are not negative (numpy answers nan on a negative one, HOL's
    \<open>sqrt\<close> answers \<open>- sqrt (- x)\<close>: statements about a root carry \<open>0 \<le> x\<close>);
  \<^item> a one-dimensional numpy array is the list of its entries, a numpy array of any
    dimension is a record of its shape tuple and its entries in row-major order;
  \<^item> a patch is the constructor call that built it, argument by argument;
  \<^item> the drawing surface (\<^verbatim>\<open>self.axes\<close> and pyplot) is the sequence of calls
    made on it, in program order;
  \<^item> an exception is a value \<open>Inl e\<close>, returned together with the state the
    call leaves behind.
\<close>

subsection \<open>Numbers and strings of the Python runtime\<close>

text \<open>\<^verbatim>\<open>numpy.radians\<close> and \<^verbatim>\<open>numpy.degrees\<close>.\<close>

definition radians :: "real \<Rightarrow> real" where
  "radians a = a * pi / 180"

definition degrees :: "real \<Rightarrow> real" where
  "degrees a = a * 180 / pi"

text \<open>\<^verbatim>\<open>str.startswith\<close>.\<close>

definition startswith :: "string \<Rightarrow> string \<Rightarrow> bool" where
  "startswith s p = prefix p s"

text \<open>\<^verbatim>\<open>str\<close> of a non-negative Python int, and of a tuple of them: \<^verbatim>\<open>()\<close>,
  \<^verbatim>\<open>(3,)\<close>, \<^verbatim>\<open>(2, 1)\<close>.\<close>

definition digit_char :: "nat \<Rightarrow> char" where
  "digit_char d = ''0123456789'' ! d"

fun str_nat :: "nat \<Rightarrow> string" where
  "str_nat n = (if n < 10 then [digit_char n] else str_nat (n div 10) @ [digit_char (n mod 10)])"

declare str_nat.simps [simp del]

fun join_comma :: "string list \<Rightarrow> string" where
  "join_comma [] = []"
| "join_comma [s] = s"
| "join_comma (s # t # ss) = s @ '', '' @ join_comma (t # ss)"

definition str_tuple :: "nat list \<Rightarrow> string" where
  "str_tuple sh =
     (case sh of
        [] \<Rightarrow> ''()''
      | [n] \<Rightarrow> ''('' @ str_nat n @ '',)''
      | _ \<Rightarrow> ''('' @ join_comma (map str_nat sh) @ '')'')"

text \<open>Values a caller can pass as a keyword argument, and the \<^verbatim>\<open>**kwargs\<close> dictionary:
  keys in insertion order, no key twice.\<close>

datatype pyval = PyNone | PyBool bool | PyFloat real | PyStr string

type_synonym kwargs = "(string \<times> pyval) list"

definition has_key :: "kwargs \<Rightarrow> string list \<Rightarrow> bool" where
  "has_key kw ks = list_ex (\<lambda>k. List.member ks k) (map fst kw)"

datatype error = ValueError string | TypeError

subsection \<open>Data\<close>

text \<open>A numpy array: \<^verbatim>\<open>.shape\<close> and the entries. \<^verbatim>\<open>len(a)\<close> is the first
  dimension (a TypeError, here \<open>None\<close>, on a 0-dimensional array), \<^verbatim>\<open>a.size\<close> the
  number of entries.\<close>

record ndarray =
  nd_shape :: "nat list"
  nd_entries :: "real list"

definition nd_len :: "ndarray \<Rightarrow> nat option" where
  "nd_len a = (case nd_shape a of [] \<Rightarrow> None | n # _ \<Rightarrow> Some n)"

definition nd_size :: "ndarray \<Rightarrow> nat" where
  "nd_size a = prod_list (nd_shape a)"

text \<open>A one-dimensional array of the given entries.\<close>

definition array1 :: "real list \<Rightarrow> ndarray" where
  "array1 xs = \<lparr>nd_shape = [length xs], nd_entries = xs\<rparr>"

text \<open>The camera geometry: \<^verbatim>\<open>pix_x\<close> and \<^verbatim>\<open>pix_y\<close> are one-dimensional quantities
  (entries and unit), \<^verbatim>\<open>pix_area\<close> a one-dimensional array, \<^verbatim>\<open>pix_type\<close> a string.\<close>

record geometry =
  pix_x :: "real list"
  pix_x_unit :: string
  pix_y :: "real list"
  pix_y_unit :: string
  pix_area :: "real list"
  pix_type :: string

text \<open>\<^verbatim>\<open>self.geom.pix_x.shape\<close>.\<close>

definition pix_x_shape :: "geometry \<Rightarrow> nat list" where
  "pix_x_shape g = [length (pix_x g)]"

text \<open>The patches of a pixel, as the constructor calls of the source:
  \<^verbatim>\<open>RegularPolygon(xy, numVertices, radius=, orientation=, fill=)\<close> and
  \<^verbatim>\<open>Rectangle(xy, width=, height=, angle=, fill=)\<close>.\<close>

datatype patch =
    RegularPolygon "real \<times> real" nat real real bool
  | Rectangle "real \<times> real" real real real bool

text \<open>What matplotlib documents of the two primitives (the library is outside the
  repository): a regular polygon is centred at its \<^verbatim>\<open>xy\<close>; a rectangle has \<^verbatim>\<open>xy\<close>
  as its lower left corner and extends from there by its width and its height. Both
  functions read a rectangle that is not rotated, the only kind the display builds.\<close>

fun patch_centre :: "patch \<Rightarrow> real \<times> real" where
  "patch_centre (RegularPolygon xy n r orientation fill) = xy"
| "patch_centre (Rectangle xy w h angle fill) = (fst xy + w / 2, snd xy + h / 2)"

fun patch_area :: "patch \<Rightarrow> real" where
  "patch_area (RegularPolygon xy n r orientation fill) = real n / 2 * r\<^sup>2 * sin (2 * pi / real n)"
| "patch_area (Rectangle xy w h angle fill) = w * h"

text \<open>\<^verbatim>\<open>Ellipse(xy=, width=, height=, angle=, fill=, **kwargs)\<close>.\<close>

record ellipse =
  e_xy :: "real \<times> real"
  e_width :: real
  e_height :: real
  e_angle :: real
  e_fill :: bool
  e_kwargs :: kwargs

text \<open>A colour map is named; \<^verbatim>\<open>plt.cm.jet\<close> is \<open>''jet''\<close>.\<close>

type_synonym cmap = string

text \<open>\<^verbatim>\<open>PatchCollection(patches, cmap=, linewidth=)\<close>, with the array that
  \<^verbatim>\<open>set_array\<close> stores (\<open>None\<close> until the first call).\<close>

record patch_collection =
  pc_patches :: "patch list"
  pc_cmap :: cmap
  pc_linewidth :: real
  pc_array :: "ndarray option"

text \<open>The calls made on the drawing surface. \<open>AddCollection\<close> hands over the one
  collection of the display, the object in its field \<open>pixels\<close>; \<open>Draw\<close> is
  \<^verbatim>\<open>plt.draw()\<close>.\<close>

datatype surface_call =
    AddCollection
  | SetAspect string string
  | SetTitle string
  | SetXLabel string
  | SetYLabel string
  | AutoscaleView
  | MplConnect string
  | AddPatch ellipse
  | Draw

record display =
  axes :: "surface_call list"
  geom :: geometry
  pixels :: patch_collection
  cmap :: cmap

text \<open>The overlays on the surface: the patches added to it, oldest first.\<close>

fun overlays :: "surface_call list \<Rightarrow> ellipse list" where
  "overlays [] = []"
| "overlays (AddPatch e # cs) = e # overlays cs"
| "overlays (c # cs) = overlays cs"

text \<open>A moment-parameters object, with the attributes the display reads.\<close>

record momparams =
  cen_x :: real
  cen_y :: real
  mp_length :: real
  mp_width :: real
  psi :: real

subsection \<open>Construction\<close>

text \<open>The body of the loop of \<^verbatim>\<open>__init__\<close>: the patch of one pixel.\<close>

definition pixel_patch :: "string \<Rightarrow> real \<Rightarrow> real \<Rightarrow> real \<Rightarrow> patch" where
  "pixel_patch ty xx yy aa =
     (if startswith ty ''hex''
      then (let rr = sqrt (aa * 2 / 3 / sqrt 3)
            in RegularPolygon (xx, yy) 6 rr (radians 0) True)
      else (let rr = sqrt aa
            in Rectangle (xx, yy) (2 * rr) (2 * rr) (radians 0) True))"

text \<open>The loop over \<^verbatim>\<open>zip(pix_x.value, pix_y.value, np.array(pix_area))\<close>, appending
  to \<^verbatim>\<open>patches\<close>.\<close>

fun build_patches :: "string \<Rightarrow> (real \<times> real \<times> real) list \<Rightarrow> patch list \<Rightarrow> patch list" where
  "build_patches ty [] patches = patches"
| "build_patches ty ((xx, yy, aa) # rest) patches =
     build_patches ty rest (patches @ [pixel_patch ty xx yy aa])"

definition format_label :: "string \<Rightarrow> string \<Rightarrow> string" where
  "format_label axis_name unit_name = axis_name @ '' position ('' @ unit_name @ '')''"

text \<open>\<^verbatim>\<open>__init__(self, geometry, axes=None, title="Camera")\<close>. The surface is the
  trace of the axes passed in, or of \<^verbatim>\<open>plt.gca()\<close> (the argument \<open>gca\<close>) when
  none is.\<close>

definition init :: "surface_call list \<Rightarrow> geometry \<Rightarrow> surface_call list option \<Rightarrow> string \<Rightarrow> display" where
  "init gca geometry ax title =
     (let ax0 = (case ax of Some a \<Rightarrow> a | None \<Rightarrow> gca);
          jet = ''jet'';
          patches = build_patches (pix_type geometry)
                      (zip (pix_x geometry) (zip (pix_y geometry) (pix_area geometry))) [];
          coll = \<lparr>pc_patches = patches, pc_cmap = jet, pc_linewidth = 0, pc_array = None\<rparr>
      in \<lparr>axes = ax0 @ [AddCollection,
                         SetAspect ''equal'' ''datalim'',
                         SetTitle title,
                         SetXLabel (format_label ''X'' (pix_x_unit geometry)),
                         SetYLabel (format_label ''Y'' (pix_y_unit geometry)),
                         AutoscaleView,
                         MplConnect ''pick_event''],
          geom = geometry,
          pixels = coll,
          cmap = jet\<rparr>)"

subsection \<open>The methods\<close>

text \<open>\<^verbatim>\<open>set_cmap\<close>: one call, \<^verbatim>\<open>self.pixels.set_cmap(cmap)\<close>; the field
  \<^verbatim>\<open>self.cmap\<close> keeps its value.\<close>

definition set_cmap :: "cmap \<Rightarrow> display \<Rightarrow> display" where
  "set_cmap c d = d\<lparr>pixels := (pixels d)\<lparr>pc_cmap := c\<rparr>\<rparr>"

text \<open>The message of the ValueError of \<^verbatim>\<open>set_image\<close>. The two literals of the
  source stand side by side with no blank between them.\<close>

definition shape_message :: "nat list \<Rightarrow> nat list \<Rightarrow> string" where
  "shape_message image_shape geom_shape =
     ''Image has a different shape '' @ str_tuple image_shape @ '' than the'' @
     ''given CameraGeometry '' @ str_tuple geom_shape"

definition set_image :: "ndarray \<Rightarrow> display \<Rightarrow> (error + unit) \<times> display" where
  "set_image img d =
     (if nd_shape img \<noteq> pix_x_shape (geom d)
      then (Inl (ValueError (shape_message (nd_shape img) (pix_x_shape (geom d)))), d)
      else (Inr (), d\<lparr>pixels := (pixels d)\<lparr>pc_array := Some img\<rparr>,
                       axes := axes d @ [Draw]\<rparr>))"

text \<open>The constructor call \<^verbatim>\<open>Ellipse(xy=..., width=..., height=..., angle=...,
  fill=False, **kwargs)\<close>: Python raises a TypeError when \<^verbatim>\<open>kwargs\<close> names one of
  the keywords the call already gives.\<close>

definition Ellipse :: "real \<times> real \<Rightarrow> real \<Rightarrow> real \<Rightarrow> real \<Rightarrow> bool \<Rightarrow> kwargs \<Rightarrow> error + ellipse" where
  "Ellipse xy w h a f kw =
     (if has_key kw [''xy'', ''width'', ''height'', ''angle'', ''fill'']
      then Inl TypeError
      else Inr \<lparr>e_xy = xy, e_width = w, e_height = h, e_angle = a, e_fill = f, e_kwargs = kw\<rparr>)"

text \<open>The body of \<^verbatim>\<open>add_ellipse(self, centroid, length, width, angle,
  asymmetry=0.0, **kwargs)\<close>, its parameters bound.\<close>

definition add_ellipse ::
  "real \<times> real \<Rightarrow> real \<Rightarrow> real \<Rightarrow> real \<Rightarrow> pyval \<Rightarrow> kwargs \<Rightarrow> display \<Rightarrow> (error + ellipse) \<times> display" where
  "add_ellipse centroid len width angle asymmetry kw d =
     (case Ellipse centroid width len (degrees angle) False kw of
        Inl e \<Rightarrow> (Inl e, d)
      | Inr ellipse \<Rightarrow> (Inr ellipse, d\<lparr>axes := axes d @ [AddPatch ellipse, Draw]\<rparr>))"

text \<open>The call \<^verbatim>\<open>self.add_ellipse(centroid=c, length=l, width=w, angle=a, **style)\<close>:
  a key of \<^verbatim>\<open>style\<close> that names a parameter already given is a TypeError, the key
  \<^verbatim>\<open>asymmetry\<close> binds that parameter, and the other keys are the \<^verbatim>\<open>kwargs\<close> of
  the body.\<close>

definition call_add_ellipse ::
  "real \<times> real \<Rightarrow> real \<Rightarrow> real \<Rightarrow> real \<Rightarrow> kwargs \<Rightarrow> display \<Rightarrow> (error + ellipse) \<times> display" where
  "call_add_ellipse c l w a style d =
     (if has_key style [''centroid'', ''length'', ''width'', ''angle'']
      then (Inl TypeError, d)
      else add_ellipse c l w a
             (case map_of style ''asymmetry'' of Some v \<Rightarrow> v | None \<Rightarrow> PyFloat 0)
             (filter (\<lambda>kv. fst kv \<noteq> ''asymmetry'') style) d)"

text \<open>\<^verbatim>\<open>overlay_moments(self, momparams, **kwargs)\<close>: the call above, its result
  dropped. The function has no \<^verbatim>\<open>return\<close>, so it returns Python's \<^verbatim>\<open>None\<close>:
  \<open>None\<close> here, where \<open>Some e\<close> would be a patch handle.\<close>

definition overlay_moments :: "momparams \<Rightarrow> kwargs \<Rightarrow> display \<Rightarrow> (error + ellipse option) \<times> display" where
  "overlay_moments mp kw d =
     (case call_add_ellipse (cen_x mp, cen_y mp) (mp_length mp) (mp_width mp) (psi mp) kw d of
        (Inl e, d') \<Rightarrow> (Inl e, d')
      | (Inr ellipse, d') \<Rightarrow> (Inr None, d'))"

section \<open>Properties\<close>

subsection \<open>Auxiliary facts\<close>

text \<open>The loop appends one patch per triple, in the order of the triples.\<close>

lemma build_patches_map:
  "build_patches ty zs acc = acc @ map (\<lambda>(xx, yy, aa). pixel_patch ty xx yy aa) zs"
  by (induction zs arbitrary: acc) auto

lemma init_patches:
  "pc_patches (pixels (init gca g ax title)) =
     map (\<lambda>(xx, yy, aa). pixel_patch (pix_type g) xx yy aa)
       (zip (pix_x g) (zip (pix_y g) (pix_area g)))"
  by (simp add: init_def Let_def build_patches_map)

lemma init_patch_nth:
  assumes "i < length (pix_x g)" and "i < length (pix_y g)" and "i < length (pix_area g)"
  shows "pc_patches (pixels (init gca g ax title)) ! i =
           pixel_patch (pix_type g) (pix_x g ! i) (pix_y g ! i) (pix_area g ! i)"
  using assms by (simp add: init_patches)

lemma init_geom: "geom (init gca g ax title) = g"
  by (simp add: init_def Let_def)

lemma init_array: "pc_array (pixels (init gca g ax title)) = None"
  by (simp add: init_def Let_def)

lemma pixel_patch_hex:
  assumes "startswith ty ''hex''"
  shows "pixel_patch ty xx yy aa =
           RegularPolygon (xx, yy) 6 (sqrt (aa * 2 / (3 * sqrt 3))) 0 True"
  using assms by (simp add: pixel_patch_def Let_def radians_def field_simps)

lemma pixel_patch_rect:
  assumes "\<not> startswith ty ''hex''"
  shows "pixel_patch ty xx yy aa = Rectangle (xx, yy) (2 * sqrt aa) (2 * sqrt aa) 0 True"
  using assms by (simp add: pixel_patch_def Let_def radians_def)

text \<open>The radius the hexagonal branch computes, squared.\<close>

lemma hexagon_radius_law:
  assumes "0 \<le> a"
  shows "3 * sqrt 3 / 2 * (sqrt (a * 2 / (3 * sqrt 3)))\<^sup>2 = a"
  using assms by (simp add: field_simps)

lemma hexagon_area:
  "patch_area (RegularPolygon xy 6 r orientation fill) = 3 * sqrt 3 / 2 * r\<^sup>2"
  by (simp add: sin_60)

lemma overlays_append: "overlays (cs @ cs') = overlays cs @ overlays cs'"
  by (induction cs rule: overlays.induct) auto

lemma overlays_AddPatch_Draw: "overlays (cs @ [AddPatch e, Draw]) = overlays cs @ [e]"
  by (simp add: overlays_append)

lemma overlays_Draw: "overlays (cs @ [Draw]) = overlays cs"
  by (simp add: overlays_append)

text \<open>Construction adds no overlay.\<close>

lemma init_overlays:
  "overlays (axes (init gca g ax title)) = overlays (case ax of Some a \<Rightarrow> a | None \<Rightarrow> gca)"
  by (simp add: init_def Let_def overlays_append)

text \<open>An array whose \<^verbatim>\<open>len\<close> or whose number of entries is not \<open>n\<close> does not have
  the shape \<^verbatim>\<open>(n,)\<close>.\<close>

lemma nd_len_shape: "nd_len img \<noteq> Some n \<Longrightarrow> nd_shape img \<noteq> [n]"
  by (auto simp: nd_len_def)

lemma nd_size_shape: "nd_size img \<noteq> n \<Longrightarrow> nd_shape img \<noteq> [n]"
  by (auto simp: nd_size_def)

lemma differs_shape:
  assumes "nd_len img \<noteq> Some n \<or> nd_size img \<noteq> n \<or> nd_shape img \<noteq> [n]"
  shows "nd_shape img \<noteq> [n]"
  using assms nd_len_shape nd_size_shape by blast

lemma has_key_Nil: "\<not> has_key [] ks"
  by (simp add: has_key_def)

lemma has_key_append: "has_key kw (ks @ ks') \<longleftrightarrow> has_key kw ks \<or> has_key kw ks'"
  by (auto simp: has_key_def list_ex_iff)

lemma has_key_filter:
  "has_key (filter (\<lambda>kv. fst kv \<noteq> k) kw) ks \<Longrightarrow> has_key kw ks"
  by (auto simp: has_key_def list_ex_iff) (metis fst_conv)

text \<open>Every call of \<^verbatim>\<open>set_cmap\<close> in a row: the last colour map stays, the rest of
  the display is as before.\<close>

lemma fold_set_cmap:
  "fold set_cmap cs d =
     d\<lparr>pixels := (pixels d)\<lparr>pc_cmap := (if cs = [] then pc_cmap (pixels d) else last cs)\<rparr>\<rparr>"
  by (induction cs arbitrary: d) (auto simp: set_cmap_def)

text \<open>The body of \<^verbatim>\<open>add_ellipse\<close> when no keyword is given twice.\<close>

lemma add_ellipse_ok:
  assumes "\<not> has_key kw [''xy'', ''width'', ''height'', ''angle'', ''fill'']"
  shows "add_ellipse centroid len width angle asymmetry kw d =
           (Inr \<lparr>e_xy = centroid, e_width = width, e_height = len, e_angle = degrees angle,
                  e_fill = False, e_kwargs = kw\<rparr>,
            d\<lparr>axes := axes d @
                 [AddPatch \<lparr>e_xy = centroid, e_width = width, e_height = len,
                            e_angle = degrees angle, e_fill = False, e_kwargs = kw\<rparr>, Draw]\<rparr>)"
  using assms by (simp add: add_ellipse_def Ellipse_def)


subsection \<open>Construction: one shape per pixel\<close>

text \<open>
  Claim C5. For a geometry whose \<^verbatim>\<open>pix_x\<close>, \<^verbatim>\<open>pix_y\<close> and \<^verbatim>\<open>pix_area\<close> all have
  \<open>n\<close> entries, the collection built by \<^verbatim>\<open>__init__\<close> holds exactly \<open>n\<close> patches,
  and the patch at index \<open>i\<close> is the one the loop body builds from the \<open>i\<close>-th
  entries of the three sequences: one patch per pixel, in the order of the pixels.
\<close>

theorem init_one_shape_per_pixel:
  assumes "length (pix_x g) = n" and "length (pix_y g) = n" and "length (pix_area g) = n"
  shows "length (pc_patches (pixels (init gca g ax title))) = n \<and>
         (\<forall>i<n. pc_patches (pixels (init gca g ax title)) ! i =
                  pixel_patch (pix_type g) (pix_x g ! i) (pix_y g ! i) (pix_area g ! i))"
  using assms by (simp add: init_patches)

theorem init_one_shape_per_pixel_witness:
  "length (pc_patches (pixels (init []
      \<lparr>pix_x = [0, 1], pix_x_unit = ''m'', pix_y = [0, 5], pix_y_unit = ''m'',
        pix_area = [4, 9], pix_type = ''rectangular''\<rparr> None ''Camera''))) = 2 \<and>
   pc_patches (pixels (init []
      \<lparr>pix_x = [0, 1], pix_x_unit = ''m'', pix_y = [0, 5], pix_y_unit = ''m'',
        pix_area = [4, 9], pix_type = ''rectangular''\<rparr> None ''Camera'')) ! 0 =
     Rectangle (0, 0) 4 4 0 True \<and>
   pc_patches (pixels (init []
      \<lparr>pix_x = [0, 1], pix_x_unit = ''m'', pix_y = [0, 5], pix_y_unit = ''m'',
        pix_area = [4, 9], pix_type = ''rectangular''\<rparr> None ''Camera'')) ! 1 =
     Rectangle (1, 5) 6 6 0 True"
  using init_one_shape_per_pixel [of
      "\<lparr>pix_x = [0, 1], pix_x_unit = ''m'', pix_y = [0, 5], pix_y_unit = ''m'',
        pix_area = [4, 9], pix_type = ''rectangular''\<rparr>" 2 "[]" None "''Camera''"]
  by (simp add: pixel_patch_def startswith_def radians_def)

subsection \<open>Construction: hexagonal pixels\<close>

text \<open>
  Claim C2. When \<^verbatim>\<open>pix_type\<close> starts with \<^verbatim>\<open>hex\<close>, the patch of pixel \<open>i\<close> (of area
  \<open>a\<close>, not negative) is a filled regular polygon with 6 vertices, given the centre
  \<open>(x\<^sub>i, y\<^sub>i)\<close>, the orientation 0 and the radius \<open>r = sqrt (a * 2 / (3 * sqrt 3))\<close>;
  this radius satisfies \<open>a = 3 * sqrt 3 / 2 * r\<^sup>2\<close>, so the polygon is centred at the
  pixel and has the pixel's area.
\<close>

theorem hexagonal_pixel_polygon:
  assumes "startswith (pix_type g) ''hex''"
    and "i < length (pix_x g)" and "i < length (pix_y g)" and "i < length (pix_area g)"
    and "0 \<le> pix_area g ! i"
  shows "pc_patches (pixels (init gca g ax title)) ! i =
           RegularPolygon (pix_x g ! i, pix_y g ! i) 6
             (sqrt (pix_area g ! i * 2 / (3 * sqrt 3))) 0 True \<and>
         pix_area g ! i = 3 * sqrt 3 / 2 * (sqrt (pix_area g ! i * 2 / (3 * sqrt 3)))\<^sup>2 \<and>
         patch_centre (pc_patches (pixels (init gca g ax title)) ! i) = (pix_x g ! i, pix_y g ! i) \<and>
         patch_area (pc_patches (pixels (init gca g ax title)) ! i) = pix_area g ! i"
proof -
  let ?r = "sqrt (pix_area g ! i * 2 / (3 * sqrt 3))"
  have built: "pc_patches (pixels (init gca g ax title)) ! i =
                 RegularPolygon (pix_x g ! i, pix_y g ! i) 6 ?r 0 True"
    using assms(1-4) by (simp add: init_patch_nth pixel_patch_hex)
  have law: "3 * sqrt 3 / 2 * ?r\<^sup>2 = pix_area g ! i"
    using assms(5) by (rule hexagon_radius_law)
  have "patch_area (RegularPolygon (pix_x g ! i, pix_y g ! i) 6 ?r 0 True) = pix_area g ! i"
    using law by (simp only: hexagon_area)
  with law show ?thesis
    by (simp add: built)
qed

theorem hexagonal_pixel_polygon_witness:
  "pc_patches (pixels (init []
      \<lparr>pix_x = [1, 2], pix_x_unit = ''m'', pix_y = [3, 4], pix_y_unit = ''m'',
        pix_area = [6 * sqrt 3, 1], pix_type = ''hexagonal''\<rparr> None ''Camera'')) ! 0 =
     RegularPolygon (1, 3) 6 2 0 True \<and>
   patch_area (pc_patches (pixels (init []
      \<lparr>pix_x = [1, 2], pix_x_unit = ''m'', pix_y = [3, 4], pix_y_unit = ''m'',
        pix_area = [6 * sqrt 3, 1], pix_type = ''hexagonal''\<rparr> None ''Camera'')) ! 0) =
     6 * sqrt 3"
  using hexagonal_pixel_polygon [of
      "\<lparr>pix_x = [1, 2], pix_x_unit = ''m'', pix_y = [3, 4], pix_y_unit = ''m'',
        pix_area = [6 * sqrt 3, 1], pix_type = ''hexagonal''\<rparr>" 0 "[]" None "''Camera''"]
  by (simp add: startswith_def sin_60)

subsection \<open>Construction: the other pixels\<close>

text \<open>What the branch for the other pixels builds, for every pixel of positive
  area \<open>a\<close>: the square with its lower left corner at the pixel, of side
  \<open>2 * sqrt a\<close>, so of area \<open>4 * a\<close> and centre \<open>(x + sqrt a, y + sqrt a)\<close>. The
  hexagonal branch of the same loop gives a polygon centred at the pixel with the
  area of the pixel.\<close>

lemma square_pixel_area_centre:
  assumes "\<not> startswith ty ''hex''" and "0 < aa"
  shows "pixel_patch ty xx yy aa = Rectangle (xx, yy) (2 * sqrt aa) (2 * sqrt aa) 0 True"
    and "patch_area (pixel_patch ty xx yy aa) = 4 * aa"
    and "patch_area (pixel_patch ty xx yy aa) \<noteq> aa"
    and "patch_centre (pixel_patch ty xx yy aa) = (xx + sqrt aa, yy + sqrt aa)"
    and "patch_centre (pixel_patch ty xx yy aa) \<noteq> (xx, yy)"
  using assms by (simp_all add: pixel_patch_rect)

text \<open>
  Claim C3. For a pixel that is not hexagonal the display is to build a filled
  square with rotation 0, centred at \<open>(x\<^sub>i, y\<^sub>i)\<close> and of area \<open>a\<^sub>i\<close>. The source
  computes \<open>rr = sqrt aa\<close>, the side of that square, and then passes \<open>2 * rr\<close> as
  width and as height and \<open>(xx, yy)\<close> as the \<^verbatim>\<open>xy\<close> of \<^verbatim>\<open>Rectangle\<close>, its lower left
  corner. For the pixel at \<open>(0, 0)\<close> of area 1 it builds the square from \<open>(0, 0)\<close>
  to \<open>(2, 2)\<close>: of area 4, not 1, and with centre \<open>(1, 1)\<close>, not \<open>(0, 0)\<close>.
\<close>

theorem square_pixel_failing_input:
  "\<not> startswith ''rectangular'' ''hex'' \<and>
   pc_patches (pixels (init []
      \<lparr>pix_x = [0], pix_x_unit = ''m'', pix_y = [0], pix_y_unit = ''m'',
        pix_area = [1], pix_type = ''rectangular''\<rparr> None ''Camera'')) ! 0 =
     Rectangle (0, 0) 2 2 0 True \<and>
   patch_area (pc_patches (pixels (init []
      \<lparr>pix_x = [0], pix_x_unit = ''m'', pix_y = [0], pix_y_unit = ''m'',
        pix_area = [1], pix_type = ''rectangular''\<rparr> None ''Camera'')) ! 0) = 4 \<and>
   patch_area (pc_patches (pixels (init []
      \<lparr>pix_x = [0], pix_x_unit = ''m'', pix_y = [0], pix_y_unit = ''m'',
        pix_area = [1], pix_type = ''rectangular''\<rparr> None ''Camera'')) ! 0) \<noteq> 1 \<and>
   patch_centre (pc_patches (pixels (init []
      \<lparr>pix_x = [0], pix_x_unit = ''m'', pix_y = [0], pix_y_unit = ''m'',
        pix_area = [1], pix_type = ''rectangular''\<rparr> None ''Camera'')) ! 0) = (1, 1) \<and>
   patch_centre (pc_patches (pixels (init []
      \<lparr>pix_x = [0], pix_x_unit = ''m'', pix_y = [0], pix_y_unit = ''m'',
        pix_area = [1], pix_type = ''rectangular''\<rparr> None ''Camera'')) ! 0) \<noteq> (0, 0)"
  by (simp add: init_patches pixel_patch_def startswith_def radians_def)

subsection \<open>set_image\<close>

text \<open>
  Claim C1 says that an image of length \<open>N\<close> never raises the error. The check of
  \<^verbatim>\<open>set_image\<close> compares shapes: an array of shape \<^verbatim>\<open>(2, 1)\<close> has the length 2
  and 2 entries, and on a display of 2 pixels it raises the ValueError all the same.
\<close>

theorem set_image_length_counterexample:
  "length (pc_patches (pixels (init []
      \<lparr>pix_x = [0, 1], pix_x_unit = ''m'', pix_y = [0, 5], pix_y_unit = ''m'',
        pix_area = [1, 9], pix_type = ''rectangular''\<rparr> None ''Camera''))) = 2 \<and>
   nd_len \<lparr>nd_shape = [2, 1], nd_entries = [5, 6]\<rparr> = Some 2 \<and>
   nd_size \<lparr>nd_shape = [2, 1], nd_entries = [5, 6]\<rparr> = 2 \<and>
   fst (set_image \<lparr>nd_shape = [2, 1], nd_entries = [5, 6]\<rparr>
     (init [] \<lparr>pix_x = [0, 1], pix_x_unit = ''m'', pix_y = [0, 5], pix_y_unit = ''m'',
        pix_area = [1, 9], pix_type = ''rectangular''\<rparr> None ''Camera'')) =
     Inl (ValueError ''Image has a different shape (2, 1) than thegiven CameraGeometry (2,)'')"
  by (simp add: nd_len_def nd_size_def set_image_def init_geom init_patches pix_x_shape_def
        shape_message_def str_tuple_def str_nat.simps digit_char_def)

text \<open>
  Claim C1, amended. With \<open>N\<close> the number of entries of \<^verbatim>\<open>pix_x\<close>: for every image
  whose shape is not \<^verbatim>\<open>(N,)\<close>, and so for every image whose length or whose number
  of entries is not \<open>N\<close>, \<^verbatim>\<open>set_image\<close> raises a ValueError whose message holds the
  shape of the image and the shape of \<^verbatim>\<open>pix_x\<close>; for every image of shape
  \<^verbatim>\<open>(N,)\<close>, a one-dimensional image of length \<open>N\<close>, it raises nothing.
\<close>

theorem set_image_shape_check:
  "(nd_len img \<noteq> Some (length (pix_x (geom d))) \<or> nd_size img \<noteq> length (pix_x (geom d)) \<or>
    nd_shape img \<noteq> [length (pix_x (geom d))] \<longrightarrow>
      fst (set_image img d) =
        Inl (ValueError (''Image has a different shape '' @ str_tuple (nd_shape img) @
                         '' than thegiven CameraGeometry '' @
                         str_tuple [length (pix_x (geom d))]))) \<and>
   (nd_shape img = [length (pix_x (geom d))] \<longrightarrow> fst (set_image img d) = Inr ())"
proof -
  have "fst (set_image img d) =
          Inl (ValueError (''Image has a different shape '' @ str_tuple (nd_shape img) @
                           '' than thegiven CameraGeometry '' @
                           str_tuple [length (pix_x (geom d))]))"
    if "nd_shape img \<noteq> [length (pix_x (geom d))]"
    using that by (simp add: set_image_def pix_x_shape_def shape_message_def)
  moreover have "fst (set_image img d) = Inr ()"
    if "nd_shape img = [length (pix_x (geom d))]"
    using that by (simp add: set_image_def pix_x_shape_def)
  ultimately show ?thesis
    using differs_shape [of img "length (pix_x (geom d))"] by blast
qed

theorem set_image_shape_check_witness:
  "fst (set_image \<lparr>nd_shape = [3], nd_entries = [5, 6, 7]\<rparr>
     (init [] \<lparr>pix_x = [0, 1], pix_x_unit = ''m'', pix_y = [0, 5], pix_y_unit = ''m'',
        pix_area = [1, 9], pix_type = ''rectangular''\<rparr> None ''Camera'')) =
     Inl (ValueError ''Image has a different shape (3,) than thegiven CameraGeometry (2,)'') \<and>
   fst (set_image \<lparr>nd_shape = [2], nd_entries = [5, 6]\<rparr>
     (init [] \<lparr>pix_x = [0, 1], pix_x_unit = ''m'', pix_y = [0, 5], pix_y_unit = ''m'',
        pix_area = [1, 9], pix_type = ''rectangular''\<rparr> None ''Camera'')) = Inr ()"
  using set_image_shape_check [of "\<lparr>nd_shape = [3], nd_entries = [5, 6, 7]\<rparr>"
      "init [] \<lparr>pix_x = [0, 1], pix_x_unit = ''m'', pix_y = [0, 5], pix_y_unit = ''m'',
        pix_area = [1, 9], pix_type = ''rectangular''\<rparr> None ''Camera''"]
    set_image_shape_check [of "\<lparr>nd_shape = [2], nd_entries = [5, 6]\<rparr>"
      "init [] \<lparr>pix_x = [0, 1], pix_x_unit = ''m'', pix_y = [0, 5], pix_y_unit = ''m'',
        pix_area = [1, 9], pix_type = ''rectangular''\<rparr> None ''Camera''"]
  by (simp add: init_geom str_tuple_def str_nat.simps digit_char_def)

text \<open>
  Claim C4 says that \<^verbatim>\<open>set_image\<close> succeeds on every image of length \<open>N\<close>. On a
  display of 3 pixels the array of shape \<^verbatim>\<open>(3, 1)\<close>, of length 3 and with 3
  entries, is refused: the call raises and the collection still has no array.
\<close>

theorem set_image_succeeds_counterexample:
  "nd_len \<lparr>nd_shape = [3, 1], nd_entries = [5, 6, 7]\<rparr> = Some 3 \<and>
   nd_size \<lparr>nd_shape = [3, 1], nd_entries = [5, 6, 7]\<rparr> = 3 \<and>
   isl (fst (set_image \<lparr>nd_shape = [3, 1], nd_entries = [5, 6, 7]\<rparr>
     (init [] \<lparr>pix_x = [0, 1, 2], pix_x_unit = ''m'', pix_y = [0, 0, 0], pix_y_unit = ''m'',
        pix_area = [1, 1, 1], pix_type = ''hexagonal''\<rparr> None ''Camera''))) \<and>
   pc_array (pixels (snd (set_image \<lparr>nd_shape = [3, 1], nd_entries = [5, 6, 7]\<rparr>
     (init [] \<lparr>pix_x = [0, 1, 2], pix_x_unit = ''m'', pix_y = [0, 0, 0], pix_y_unit = ''m'',
        pix_area = [1, 1, 1], pix_type = ''hexagonal''\<rparr> None ''Camera'')))) = None"
  by (simp add: nd_len_def nd_size_def set_image_def init_geom init_array pix_x_shape_def)

text \<open>
  Claim C4, amended. With \<open>N\<close> the number of entries of \<^verbatim>\<open>pix_x\<close>: for every image of
  shape \<^verbatim>\<open>(N,)\<close>, a one-dimensional image of length \<open>N\<close>, \<^verbatim>\<open>set_image\<close> succeeds;
  afterwards the array of the collection is the image, entry by entry in the same
  order, the patches are the same, and the last call on the surface is the redraw.
\<close>

theorem set_image_stores_image:
  assumes "nd_shape img = [length (pix_x (geom d))]"
  shows "fst (set_image img d) = Inr () \<and>
         pc_array (pixels (snd (set_image img d))) = Some img \<and>
         map_option nd_entries (pc_array (pixels (snd (set_image img d)))) = Some (nd_entries img) \<and>
         pc_patches (pixels (snd (set_image img d))) = pc_patches (pixels d) \<and>
         axes (snd (set_image img d)) = axes d @ [Draw]"
  using assms by (simp add: set_image_def pix_x_shape_def)

theorem set_image_stores_image_witness:
  "map_option nd_entries (pc_array (pixels (snd (set_image (array1 [5, 6])
     (init [] \<lparr>pix_x = [0, 1], pix_x_unit = ''m'', pix_y = [0, 5], pix_y_unit = ''m'',
        pix_area = [1, 9], pix_type = ''rectangular''\<rparr> None ''Camera''))))) = Some [5, 6] \<and>
   last (axes (snd (set_image (array1 [5, 6])
     (init [] \<lparr>pix_x = [0, 1], pix_x_unit = ''m'', pix_y = [0, 5], pix_y_unit = ''m'',
        pix_area = [1, 9], pix_type = ''rectangular''\<rparr> None ''Camera'')))) = Draw"
  using set_image_stores_image [of "array1 [5, 6]"
      "init [] \<lparr>pix_x = [0, 1], pix_x_unit = ''m'', pix_y = [0, 5], pix_y_unit = ''m'',
        pix_area = [1, 9], pix_type = ''rectangular''\<rparr> None ''Camera''"]
  by (simp add: init_geom array1_def)

text \<open>
  Claim C8. A call of \<^verbatim>\<open>set_image\<close> with an image whose length (or number of
  entries, or shape) is not that of the geometry raises, and the display after it
  is the display before it: the same patches, the same array of colour values, the
  same overlays.
\<close>

theorem set_image_failure_unchanged:
  assumes "nd_len img \<noteq> Some (length (pix_x (geom d))) \<or>
           nd_size img \<noteq> length (pix_x (geom d)) \<or>
           nd_shape img \<noteq> [length (pix_x (geom d))]"
  shows "isl (fst (set_image img d)) \<and>
         snd (set_image img d) = d \<and>
         pc_patches (pixels (snd (set_image img d))) = pc_patches (pixels d) \<and>
         pc_array (pixels (snd (set_image img d))) = pc_array (pixels d) \<and>
         overlays (axes (snd (set_image img d))) = overlays (axes d)"
proof -
  from assms have "nd_shape img \<noteq> pix_x_shape (geom d)"
    unfolding pix_x_shape_def by (rule differs_shape)
  then show ?thesis
    by (simp add: set_image_def)
qed


theorem set_image_failure_unchanged_witness:
  "isl (fst (set_image \<lparr>nd_shape = [3], nd_entries = [7, 8, 9]\<rparr>
     (snd (add_ellipse (1, 2) 4 2 0 (PyFloat 0) []
       (snd (set_image (array1 [5, 6])
         (init [] \<lparr>pix_x = [0, 1], pix_x_unit = ''m'', pix_y = [0, 5], pix_y_unit = ''m'',
            pix_area = [1, 9], pix_type = ''rectangular''\<rparr> None ''Camera''))))))) \<and>
   pc_array (pixels (snd (set_image \<lparr>nd_shape = [3], nd_entries = [7, 8, 9]\<rparr>
     (snd (add_ellipse (1, 2) 4 2 0 (PyFloat 0) []
       (snd (set_image (array1 [5, 6])
         (init [] \<lparr>pix_x = [0, 1], pix_x_unit = ''m'', pix_y = [0, 5], pix_y_unit = ''m'',
            pix_area = [1, 9], pix_type = ''rectangular''\<rparr> None ''Camera'')))))))) =
     Some (array1 [5, 6]) \<and>
   overlays (axes (snd (set_image \<lparr>nd_shape = [3], nd_entries = [7, 8, 9]\<rparr>
     (snd (add_ellipse (1, 2) 4 2 0 (PyFloat 0) []
       (snd (set_image (array1 [5, 6])
         (init [] \<lparr>pix_x = [0, 1], pix_x_unit = ''m'', pix_y = [0, 5], pix_y_unit = ''m'',
            pix_area = [1, 9], pix_type = ''rectangular''\<rparr> None ''Camera'')))))))) =
     [\<lparr>e_xy = (1, 2), e_width = 2, e_height = 4, e_angle = 0, e_fill = False, e_kwargs = []\<rparr>]"
  using set_image_failure_unchanged [of "\<lparr>nd_shape = [3], nd_entries = [7, 8, 9]\<rparr>"
     "snd (add_ellipse (1, 2) 4 2 0 (PyFloat 0) []
       (snd (set_image (array1 [5, 6])
         (init [] \<lparr>pix_x = [0, 1], pix_x_unit = ''m'', pix_y = [0, 5], pix_y_unit = ''m'',
            pix_area = [1, 9], pix_type = ''rectangular''\<rparr> None ''Camera''))))"]
  by (simp add: add_ellipse_ok has_key_Nil set_image_def pix_x_shape_def array1_def init_def
        Let_def degrees_def nd_len_def)

subsection \<open>set_cmap\<close>

text \<open>
  Claim C9. \<^verbatim>\<open>set_cmap\<close> sets the colour map of the collection and nothing else: the
  patches (their number, positions and sizes), the array of image values, the
  line width, the surface and the geometry are as before; the same holds after any
  sequence of calls of \<^verbatim>\<open>set_cmap\<close>, which leaves the last colour map in place.
\<close>

theorem set_cmap_frame:
  "pc_cmap (pixels (set_cmap c d)) = c \<and>
   pc_patches (pixels (set_cmap c d)) = pc_patches (pixels d) \<and>
   pc_array (pixels (set_cmap c d)) = pc_array (pixels d) \<and>
   pc_linewidth (pixels (set_cmap c d)) = pc_linewidth (pixels d) \<and>
   axes (set_cmap c d) = axes d \<and>
   geom (set_cmap c d) = geom d \<and>
   pc_cmap (pixels (fold set_cmap (cs @ [c]) d)) = c \<and>
   pc_patches (pixels (fold set_cmap cs d)) = pc_patches (pixels d) \<and>
   pc_array (pixels (fold set_cmap cs d)) = pc_array (pixels d) \<and>
   pc_linewidth (pixels (fold set_cmap cs d)) = pc_linewidth (pixels d) \<and>
   axes (fold set_cmap cs d) = axes d \<and>
   geom (fold set_cmap cs d) = geom d"
proof -
  have one: "set_cmap c d = d\<lparr>pixels := (pixels d)\<lparr>pc_cmap := c\<rparr>\<rparr>"
    by (simp add: set_cmap_def)
  have many: "fold set_cmap cs d =
      d\<lparr>pixels := (pixels d)\<lparr>pc_cmap := (if cs = [] then pc_cmap (pixels d) else last cs)\<rparr>\<rparr>"
    by (rule fold_set_cmap)
  have "pc_cmap (pixels (fold set_cmap (cs @ [c]) d)) = c"
    by (simp add: set_cmap_def)
  then show ?thesis
    by (simp add: one many)
qed

theorem set_cmap_frame_witness:
  "pc_cmap (pixels (fold set_cmap [''hot'', ''gray'']
     (snd (set_image (array1 [5, 6])
       (init [] \<lparr>pix_x = [0, 1], pix_x_unit = ''m'', pix_y = [0, 5], pix_y_unit = ''m'',
          pix_area = [1, 9], pix_type = ''rectangular''\<rparr> None ''Camera''))))) = ''gray'' \<and>
   pc_array (pixels (fold set_cmap [''hot'', ''gray'']
     (snd (set_image (array1 [5, 6])
       (init [] \<lparr>pix_x = [0, 1], pix_x_unit = ''m'', pix_y = [0, 5], pix_y_unit = ''m'',
          pix_area = [1, 9], pix_type = ''rectangular''\<rparr> None ''Camera''))))) =
     Some (array1 [5, 6]) \<and>
   pc_patches (pixels (fold set_cmap [''hot'', ''gray'']
     (snd (set_image (array1 [5, 6])
       (init [] \<lparr>pix_x = [0, 1], pix_x_unit = ''m'', pix_y = [0, 5], pix_y_unit = ''m'',
          pix_area = [1, 9], pix_type = ''rectangular''\<rparr> None ''Camera''))))) =
     [Rectangle (0, 0) 2 2 0 True, Rectangle (1, 5) 6 6 0 True]"
  using set_cmap_frame [of "''gray''"
     "snd (set_image (array1 [5, 6])
       (init [] \<lparr>pix_x = [0, 1], pix_x_unit = ''m'', pix_y = [0, 5], pix_y_unit = ''m'',
          pix_area = [1, 9], pix_type = ''rectangular''\<rparr> None ''Camera''))" "[''hot'']"]
    set_cmap_frame [of "''gray''"
     "snd (set_image (array1 [5, 6])
       (init [] \<lparr>pix_x = [0, 1], pix_x_unit = ''m'', pix_y = [0, 5], pix_y_unit = ''m'',
          pix_area = [1, 9], pix_type = ''rectangular''\<rparr> None ''Camera''))" "[''hot'', ''gray'']"]
  by (simp add: set_image_def pix_x_shape_def array1_def init_geom init_patches
        pixel_patch_def startswith_def radians_def)

subsection \<open>add_ellipse and overlay_moments\<close>

text \<open>
  Claim C6. \<^verbatim>\<open>add_ellipse\<close> builds an ellipse that is not filled, centred at
  \<^verbatim>\<open>centroid\<close>, whose height (the extent along its major axis) is \<^verbatim>\<open>length\<close>, whose
  width (the extent along its minor axis) is \<^verbatim>\<open>width\<close> and whose angle is \<^verbatim>\<open>angle\<close>
  in degrees, \<open>angle * 180 / pi\<close>. It adds this patch to the surface after the
  overlays already there, redraws, and returns the patch. (The style keywords, when
  there are any, name none of the keywords that the call of \<^verbatim>\<open>Ellipse\<close> gives.)
\<close>

theorem add_ellipse_patch:
  assumes "\<not> has_key kw [''xy'', ''width'', ''height'', ''angle'', ''fill'']"
  shows "fst (add_ellipse centroid len width angle asymmetry kw d) =
           Inr \<lparr>e_xy = centroid, e_width = width, e_height = len, e_angle = angle * 180 / pi,
                 e_fill = False, e_kwargs = kw\<rparr> \<and>
         axes (snd (add_ellipse centroid len width angle asymmetry kw d)) =
           axes d @ [AddPatch \<lparr>e_xy = centroid, e_width = width, e_height = len,
                                e_angle = angle * 180 / pi, e_fill = False, e_kwargs = kw\<rparr>, Draw] \<and>
         overlays (axes (snd (add_ellipse centroid len width angle asymmetry kw d))) =
           overlays (axes d) @
             [\<lparr>e_xy = centroid, e_width = width, e_height = len, e_angle = angle * 180 / pi,
               e_fill = False, e_kwargs = kw\<rparr>] \<and>
         pixels (snd (add_ellipse centroid len width angle asymmetry kw d)) = pixels d"
  using assms by (simp add: add_ellipse_ok overlays_AddPatch_Draw degrees_def)

theorem add_ellipse_patch_witness:
  "fst (add_ellipse (1, 2) 4 2 0 (PyFloat 0) []
     (init [] \<lparr>pix_x = [0, 1], pix_x_unit = ''m'', pix_y = [0, 5], pix_y_unit = ''m'',
        pix_area = [1, 9], pix_type = ''rectangular''\<rparr> None ''Camera'')) =
     Inr \<lparr>e_xy = (1, 2), e_width = 2, e_height = 4, e_angle = 0, e_fill = False, e_kwargs = []\<rparr> \<and>
   overlays (axes (snd (add_ellipse (0, 0) 2 1 (pi / 4) (PyFloat 0) [(''color'', PyStr ''red'')]
     (snd (add_ellipse (1, 2) 4 2 0 (PyFloat 0) []
       (init [] \<lparr>pix_x = [0, 1], pix_x_unit = ''m'', pix_y = [0, 5], pix_y_unit = ''m'',
          pix_area = [1, 9], pix_type = ''rectangular''\<rparr> None ''Camera'')))))) =
     [\<lparr>e_xy = (1, 2), e_width = 2, e_height = 4, e_angle = 0, e_fill = False, e_kwargs = []\<rparr>,
      \<lparr>e_xy = (0, 0), e_width = 1, e_height = 2, e_angle = 45, e_fill = False,
        e_kwargs = [(''color'', PyStr ''red'')]\<rparr>]"
  using add_ellipse_patch [of "[]" "(1, 2)" 4 2 0 "PyFloat 0"
     "init [] \<lparr>pix_x = [0, 1], pix_x_unit = ''m'', pix_y = [0, 5], pix_y_unit = ''m'',
        pix_area = [1, 9], pix_type = ''rectangular''\<rparr> None ''Camera''"]
    add_ellipse_patch [of "[(''color'', PyStr ''red'')]" "(0, 0)" 2 1 "pi / 4" "PyFloat 0"
     "snd (add_ellipse (1, 2) 4 2 0 (PyFloat 0) []
       (init [] \<lparr>pix_x = [0, 1], pix_x_unit = ''m'', pix_y = [0, 5], pix_y_unit = ''m'',
          pix_area = [1, 9], pix_type = ''rectangular''\<rparr> None ''Camera''))"]
  by (simp add: has_key_def init_def Let_def)


text \<open>
  Claim C7. \<^verbatim>\<open>overlay_moments(momparams, **style)\<close> leaves the display exactly as the
  call \<^verbatim>\<open>add_ellipse(centroid=(cen_x, cen_y), length=length, width=width, angle=psi,
  **style)\<close> does, and raises exactly when that call raises. When \<^verbatim>\<open>style\<close> names no
  keyword that either call already gives, the overlay added is the ellipse centred at
  \<open>(cen_x, cen_y)\<close>, of height \<^verbatim>\<open>length\<close>, width \<^verbatim>\<open>width\<close> and angle \<^verbatim>\<open>psi\<close> in
  degrees, not filled, with the style keywords (\<^verbatim>\<open>asymmetry\<close>, a parameter of
  \<^verbatim>\<open>add_ellipse\<close>, apart).
\<close>

theorem overlay_moments_forwards:
  "snd (overlay_moments mp style d) =
     snd (call_add_ellipse (cen_x mp, cen_y mp) (mp_length mp) (mp_width mp) (psi mp) style d) \<and>
   isl (fst (overlay_moments mp style d)) =
     isl (fst (call_add_ellipse (cen_x mp, cen_y mp) (mp_length mp) (mp_width mp) (psi mp) style d)) \<and>
   (\<not> has_key style ([''centroid'', ''length'', ''width'', ''angle''] @
                      [''xy'', ''width'', ''height'', ''angle'', ''fill'']) \<longrightarrow>
      overlays (axes (snd (overlay_moments mp style d))) =
        overlays (axes d) @
          [\<lparr>e_xy = (cen_x mp, cen_y mp), e_width = mp_width mp, e_height = mp_length mp,
            e_angle = degrees (psi mp), e_fill = False,
            e_kwargs = filter (\<lambda>kv. fst kv \<noteq> ''asymmetry'') style\<rparr>])"
proof -
  let ?call = "call_add_ellipse (cen_x mp, cen_y mp) (mp_length mp) (mp_width mp) (psi mp) style d"
  have same_state: "snd (overlay_moments mp style d) = snd ?call"
    by (simp add: overlay_moments_def split: prod.splits sum.splits)
  have same_raise: "isl (fst (overlay_moments mp style d)) = isl (fst ?call)"
    by (simp add: overlay_moments_def split: prod.splits sum.splits)
  have "overlays (axes (snd ?call)) =
          overlays (axes d) @
            [\<lparr>e_xy = (cen_x mp, cen_y mp), e_width = mp_width mp, e_height = mp_length mp,
              e_angle = degrees (psi mp), e_fill = False,
              e_kwargs = filter (\<lambda>kv. fst kv \<noteq> ''asymmetry'') style\<rparr>]"
    if free: "\<not> has_key style ([''centroid'', ''length'', ''width'', ''angle''] @
                                  [''xy'', ''width'', ''height'', ''angle'', ''fill''])"
  proof -
    from free have bind: "\<not> has_key style [''centroid'', ''length'', ''width'', ''angle'']"
      and "\<not> has_key style [''xy'', ''width'', ''height'', ''angle'', ''fill'']"
      using has_key_append [of style "[''centroid'', ''length'', ''width'', ''angle'']"
          "[''xy'', ''width'', ''height'', ''angle'', ''fill'']"]
      by simp_all
    then have "\<not> has_key (filter (\<lambda>kv. fst kv \<noteq> ''asymmetry'') style)
                   [''xy'', ''width'', ''height'', ''angle'', ''fill'']"
      using has_key_filter by blast
    then show ?thesis
      using bind by (simp add: call_add_ellipse_def add_ellipse_ok overlays_AddPatch_Draw)
  qed
  with same_state same_raise show ?thesis
    by simp
qed

theorem overlay_moments_forwards_witness:
  "overlays (axes (snd (overlay_moments
      \<lparr>cen_x = 0, cen_y = 0, mp_length = 2, mp_width = 1, psi = pi / 4\<rparr>
      [(''color'', PyStr ''red'')]
      (init [] \<lparr>pix_x = [0, 1], pix_x_unit = ''m'', pix_y = [0, 5], pix_y_unit = ''m'',
         pix_area = [1, 9], pix_type = ''rectangular''\<rparr> None ''Camera'')))) =
     [\<lparr>e_xy = (0, 0), e_width = 1, e_height = 2, e_angle = 45, e_fill = False,
       e_kwargs = [(''color'', PyStr ''red'')]\<rparr>] \<and>
   snd (overlay_moments
      \<lparr>cen_x = 0, cen_y = 0, mp_length = 2, mp_width = 1, psi = pi / 4\<rparr>
      [(''color'', PyStr ''red'')]
      (init [] \<lparr>pix_x = [0, 1], pix_x_unit = ''m'', pix_y = [0, 5], pix_y_unit = ''m'',
         pix_area = [1, 9], pix_type = ''rectangular''\<rparr> None ''Camera'')) =
     snd (add_ellipse (0, 0) 2 1 (pi / 4) (PyFloat 0) [(''color'', PyStr ''red'')]
      (init [] \<lparr>pix_x = [0, 1], pix_x_unit = ''m'', pix_y = [0, 5], pix_y_unit = ''m'',
         pix_area = [1, 9], pix_type = ''rectangular''\<rparr> None ''Camera''))"
  using overlay_moments_forwards [of
      "\<lparr>cen_x = 0, cen_y = 0, mp_length = 2, mp_width = 1, psi = pi / 4\<rparr>"
      "[(''color'', PyStr ''red'')]"
      "init [] \<lparr>pix_x = [0, 1], pix_x_unit = ''m'', pix_y = [0, 5], pix_y_unit = ''m'',
         pix_area = [1, 9], pix_type = ''rectangular''\<rparr> None ''Camera''"]
  by (simp add: has_key_def call_add_ellipse_def add_ellipse_def Ellipse_def degrees_def
        overlays_append init_overlays)

text \<open>
  Claim C10. \<^verbatim>\<open>overlay_moments\<close> never returns a patch handle: where the call of
  \<^verbatim>\<open>add_ellipse\<close> inside it returns the ellipse it has built, \<^verbatim>\<open>overlay_moments\<close>
  returns \<^verbatim>\<open>None\<close> (and where that call raises, it raises the same error). With no
  style keywords it returns \<^verbatim>\<open>None\<close> for every moment-parameters object.
\<close>

theorem overlay_moments_returns_None:
  "fst (overlay_moments mp style d) =
     (case fst (call_add_ellipse (cen_x mp, cen_y mp) (mp_length mp) (mp_width mp) (psi mp) style d) of
        Inl e \<Rightarrow> Inl e
      | Inr handle \<Rightarrow> Inr None) \<and>
   fst (overlay_moments mp style d) \<noteq> Inr (Some h) \<and>
   fst (overlay_moments mp [] d) = Inr None \<and>
   fst (call_add_ellipse (cen_x mp, cen_y mp) (mp_length mp) (mp_width mp) (psi mp) [] d) =
     Inr \<lparr>e_xy = (cen_x mp, cen_y mp), e_width = mp_width mp, e_height = mp_length mp,
           e_angle = degrees (psi mp), e_fill = False, e_kwargs = []\<rparr>"
proof -
  have plain: "call_add_ellipse c l w a [] d = add_ellipse c l w a (PyFloat 0) [] d" for c l w a
    by (simp add: call_add_ellipse_def has_key_Nil)
  have ret: "fst (overlay_moments mp style d) =
     (case fst (call_add_ellipse (cen_x mp, cen_y mp) (mp_length mp) (mp_width mp) (psi mp) style d) of
        Inl e \<Rightarrow> Inl e
      | Inr handle \<Rightarrow> Inr None)"
    by (simp add: overlay_moments_def split: prod.splits sum.splits)
  then have "fst (overlay_moments mp style d) \<noteq> Inr (Some h)"
    by (simp split: sum.splits)
  moreover have "fst (overlay_moments mp [] d) = Inr None"
    by (simp add: overlay_moments_def plain add_ellipse_ok has_key_Nil)
  moreover have "fst (call_add_ellipse (cen_x mp, cen_y mp) (mp_length mp) (mp_width mp) (psi mp) [] d) =
     Inr \<lparr>e_xy = (cen_x mp, cen_y mp), e_width = mp_width mp, e_height = mp_length mp,
           e_angle = degrees (psi mp), e_fill = False, e_kwargs = []\<rparr>"
    by (simp add: plain add_ellipse_ok has_key_Nil)
  ultimately show ?thesis
    using ret by simp
qed

theorem overlay_moments_returns_None_witness:
  "fst (overlay_moments \<lparr>cen_x = 0, cen_y = 0, mp_length = 2, mp_width = 1, psi = pi / 4\<rparr> []
      (init [] \<lparr>pix_x = [0, 1], pix_x_unit = ''m'', pix_y = [0, 5], pix_y_unit = ''m'',
         pix_area = [1, 9], pix_type = ''rectangular''\<rparr> None ''Camera'')) = Inr None \<and>
   fst (call_add_ellipse (0, 0) 2 1 (pi / 4) []
      (init [] \<lparr>pix_x = [0, 1], pix_x_unit = ''m'', pix_y = [0, 5], pix_y_unit = ''m'',
         pix_area = [1, 9], pix_type = ''rectangular''\<rparr> None ''Camera'')) =
     Inr \<lparr>e_xy = (0, 0), e_width = 1, e_height = 2, e_angle = 45, e_fill = False, e_kwargs = []\<rparr>"
  using overlay_moments_returns_None [of
      "\<lparr>cen_x = 0, cen_y = 0, mp_length = 2, mp_width = 1, psi = pi / 4\<rparr>" "[]"
      "init [] \<lparr>pix_x = [0, 1], pix_x_unit = ''m'', pix_y = [0, 5], pix_y_unit = ''m'',
         pix_area = [1, 9], pix_type = ''rectangular''\<rparr> None ''Camera''"]
  by (simp add: degrees_def)

end
